theory Spec2Isabelle
  imports Complex_Main "HOL-Library.Word" "HOL-Library.AList" "HOL-Library.Multiset"
begin

section \<open>Data model\<close>

text \<open>
  An image is what \<^verbatim>\<open>read(path, ImgColor.RGB, ImgFormat.F32)\<close> returns: rows of
  pixels, each pixel a list of channel samples. The samples are 32-bit floats in the
  program; here they are exact reals, so rounding is abstracted away. A detail map
  (\<^verbatim>\<open>laplacian_abs\<close>) is a two-dimensional array of samples.
\<close>

type_synonym bytes = "8 word list"
type_synonym image = "real list list list"
type_synonym dmap = "real list list"

text \<open>
  The file system: folders by path, each with its entries (name and content) in listing
  order. \<^verbatim>\<open>os.path.join(folder, name)\<close> is the entry \<open>name\<close> of \<open>folder\<close>.
\<close>

type_synonym folder = "(string \<times> bytes) list"
type_synonym fsys = "(string \<times> folder) list"

datatype error =
    FileNotFoundError
  | InvalidImage
  | SaveError
  | ResizeError
  | ZeroDivisionError
  | OverflowError
  | TypeError
  | InvalidTileSize
  | IndexError
  | PicklingError

text \<open>The attributes of a \<^verbatim>\<open>BestTile\<close> object, as \<^verbatim>\<open>__init__\<close> sets them.\<close>

record BestTile =
  scale :: int
  in_folder :: string
  out_folder :: string
  tile_size :: int
  all_images :: "string list"
  process_type :: string

text \<open>
  A numpy array of samples with no, one or two axes: \<^verbatim>\<open>squeeze\<close> removes every
  axis of length one, so a resized map with one row or one column is no longer
  two-dimensional when it reaches the search.
\<close>

datatype ndarray = Arr0 real | Arr1 "real list" | Arr2 dmap

text \<open>
  The library functions the program imports and the repository does not contain are
  parameters of the model: the codec behind \<^verbatim>\<open>read\<close> and \<^verbatim>\<open>save\<close>, the grey-scale
  conversion, \<^verbatim>\<open>cv2.Laplacian\<close>, \<^verbatim>\<open>chainner_ext.resize\<close> (called with the box filter
  and a size \<open>(width, height)\<close>), the search \<^verbatim>\<open>best_tile\<close> of pepeline and tqdm's
  \<^verbatim>\<open>process_map\<close>.
\<close>

type_synonym job_state = "fsys \<times> nat"

record collab =
  decode :: "bytes \<Rightarrow> error + image"
  encode :: "string \<Rightarrow> image \<Rightarrow> error + bytes"
  cvt_color :: "image \<Rightarrow> dmap"
  Laplacian :: "dmap \<Rightarrow> dmap"
  resize :: "dmap \<Rightarrow> nat \<times> nat \<Rightarrow> error + dmap"
  best_tile :: "ndarray \<Rightarrow> int \<Rightarrow> error + nat \<times> nat"
  process_map :: "(string \<Rightarrow> job_state \<Rightarrow> error + job_state) \<Rightarrow> string list
                    \<Rightarrow> job_state \<Rightarrow> error option \<times> job_state"

section \<open>Arrays\<close>

text \<open>\<^verbatim>\<open>shape[1]\<close> of a two-dimensional array given as its rows.\<close>

definition width :: "'a list list \<Rightarrow> nat" where
  "width m = (case m of [] \<Rightarrow> 0 | r # _ \<Rightarrow> length r)"

text \<open>
  Python's \<^verbatim>\<open>xs[a:b]\<close> for a start \<open>a \<ge> 0\<close>: a negative stop counts from the end, a
  stop past the end is cut to the length.
\<close>

definition slice :: "nat \<Rightarrow> int \<Rightarrow> 'a list \<Rightarrow> 'a list" where
  "slice a b xs =
     (let n = int (length xs);
          stop = (if b < 0 then max 0 (b + n) else min b n)
      in take (nat stop - a) (drop a xs))"

text \<open>\<^verbatim>\<open>img[r:r + t, c:c + t]\<close>\<close>

definition crop :: "'a list list \<Rightarrow> nat \<times> nat \<Rightarrow> int \<Rightarrow> 'a list list" where
  "crop img cord t =
     map (slice (snd cord) (int (snd cord) + t)) (slice (fst cord) (int (fst cord) + t) img)"



text \<open>numpy's \<^verbatim>\<open>squeeze\<close> on the two-dimensional result of \<^verbatim>\<open>resize\<close>.\<close>

definition squeeze :: "dmap \<Rightarrow> ndarray" where
  "squeeze m =
     (if length m = 1 then (if width m = 1 then Arr0 (hd (hd m)) else Arr1 (hd m))
      else if width m = 1 then Arr1 (map hd m)
      else Arr2 m)"



section \<open>The window search\<close>

text \<open>
  Modelled from the spec: \<^verbatim>\<open>best_tile\<close> is imported from the package pepeline and its
  code is not in the repository. \<open>window_search\<close> is the search as section 4.2 of the
  specification describes it: the integral map with a zero first row and column,
  \<open>I[y][x] = I[y-1][x] + I[y][x-1] - I[y-1][x-1] + D[y-1][x-1]\<close>; the window sum
  \<open>I[y+t][x+t] - I[y][x+t] - I[y+t][x] + I[y][x]\<close>; a row-major scan of the candidates
  that keeps the first maximum. A tile size that is larger than the map (section 4.2) or
  below one (sections 3 and 7) is signalled as \<open>InvalidTileSize\<close>. Beyond the
  specification, the model rejects an array that is not two-dimensional.
\<close>

fun integral_row :: "real \<Rightarrow> real list \<Rightarrow> real list \<Rightarrow> real list" where
  "integral_row left (a # b # prev) (d # ds) =
     (let v = b + left - a + d in v # integral_row v (b # prev) ds)"
| "integral_row left prev ds = []"

fun integral_rows :: "real list \<Rightarrow> dmap \<Rightarrow> real list list" where
  "integral_rows prev [] = [prev]"
| "integral_rows prev (d # ds) = prev # integral_rows (0 # integral_row 0 prev d) ds"

definition integral :: "dmap \<Rightarrow> real list list" where
  "integral m = integral_rows (replicate (Suc (width m)) 0) m"

definition window_sum :: "real list list \<Rightarrow> nat \<Rightarrow> nat \<times> nat \<Rightarrow> real" where
  "window_sum I t p =
     (case p of (y, x) \<Rightarrow> I ! (y + t) ! (x + t) - I ! y ! (x + t) - I ! (y + t) ! x + I ! y ! x)"

definition candidates :: "nat \<Rightarrow> nat \<Rightarrow> nat \<Rightarrow> (nat \<times> nat) list" where
  "candidates h w t = List.product [0..<Suc (h - t)] [0..<Suc (w - t)]"

definition keep_best ::
  "real list list \<Rightarrow> nat \<Rightarrow> nat \<times> nat \<Rightarrow> real \<times> (nat \<times> nat) \<Rightarrow> real \<times> (nat \<times> nat)" where
  "keep_best I t p best =
     (if fst best < window_sum I t p then (window_sum I t p, p) else best)"

definition search :: "dmap \<Rightarrow> nat \<Rightarrow> nat \<times> nat" where
  "search m t =
     (let I = integral m
      in snd (fold (keep_best I t) (candidates (length m) (width m) t)
                (window_sum I t (0, 0), (0, 0))))"

fun window_search :: "ndarray \<Rightarrow> int \<Rightarrow> error + nat \<times> nat" where
  "window_search (Arr2 m) t =
     (if t < 1 then Inl InvalidTileSize
      else if length m < nat t \<or> width m < nat t then Inl InvalidTileSize
      else Inr (search m (nat t)))"
| "window_search (Arr1 v) t = Inl TypeError"
| "window_search (Arr0 v) t = Inl TypeError"

section \<open>Processing one image\<close>

text \<open>
  \<^verbatim>\<open>read\<close> and \<^verbatim>\<open>save\<close> of pepeline, on the modelled file system. A path that does
  not exist raises; \<^verbatim>\<open>save\<close> replaces an existing entry of the same name and adds a
  new one otherwise.
\<close>

definition read :: "collab \<Rightarrow> fsys \<Rightarrow> string \<Rightarrow> string \<Rightarrow> error + image" where
  "read ext fs dir name =
     (case map_of fs dir of
        None \<Rightarrow> Inl FileNotFoundError
      | Some d \<Rightarrow>
          (case map_of d name of
             None \<Rightarrow> Inl FileNotFoundError
           | Some b \<Rightarrow> decode ext b))"

definition save :: "collab \<Rightarrow> image \<Rightarrow> string \<Rightarrow> string \<Rightarrow> fsys \<Rightarrow> error + fsys" where
  "save ext img dir name fs =
     (case map_of fs dir of
        None \<Rightarrow> Inl FileNotFoundError
      | Some d \<Rightarrow>
          (case encode ext name img of
             Inl e \<Rightarrow> Inl e
           | Inr b \<Rightarrow> Inr (AList.update dir (AList.update name b d) fs)))"

text \<open>Python's \<^verbatim>\<open>str.split(sep)\<close> for a one-character separator, and \<^verbatim>\<open>sep.join\<close>.\<close>

fun str_split :: "char \<Rightarrow> string \<Rightarrow> string list" where
  "str_split sep [] = [[]]"
| "str_split sep (c # cs) =
     (if c = sep then [] # str_split sep cs
      else (case str_split sep cs of
              [] \<Rightarrow> [[c]]
            | p # ps \<Rightarrow> (c # p) # ps))"

fun join :: "string \<Rightarrow> string list \<Rightarrow> string" where
  "join sep [] = []"
| "join sep [p] = p"
| "join sep (p # q # ps) = p @ sep @ join sep (q # ps)"

text \<open>\<^verbatim>\<open>".".join(img_name.split(".")[:-1]) + ".png"\<close>\<close>

definition result_name :: "string \<Rightarrow> string" where
  "result_name img_name = join ''.'' (butlast (str_split (CHR ''.'') img_name)) @ ''.png''"

text \<open>\<^verbatim>\<open>np.abs(cv2.Laplacian(cvt_color(img, CvtType.RGB2GrayBt2020), -1))\<close>\<close>

definition laplacian_abs :: "collab \<Rightarrow> image \<Rightarrow> dmap" where
  "laplacian_abs ext img = map (map abs) (Laplacian ext (cvt_color ext img))"

text \<open>
  Python's \<^verbatim>\<open>tuple * k\<close>: the tuple repeated \<open>k\<close> times, the empty tuple for
  \<open>k \<le> 0\<close>.
\<close>

definition tuple_mul :: "nat list \<Rightarrow> int \<Rightarrow> nat list" where
  "tuple_mul t k = concat (replicate (nat k) t)"

text \<open>
  The tuple \<^verbatim>\<open>left_up_cord\<close> of \<^verbatim>\<open>process\<close>, from the shape of the image and its
  detail map. With a scale above one the map is resized to
  \<open>(shape[1] // scale, shape[0] // scale)\<close>, squeezed and searched with
  \<open>tile_size // scale\<close>. \<^verbatim>\<open>best_tile\<close> returns a tuple \<open>(row, col)\<close>, so
  \<^verbatim>\<open>best_tile(...) * self.scale\<close> repeats that tuple \<open>scale\<close> times: it does not
  multiply the components. Otherwise the map is searched as it is, with
  \<open>tile_size // scale\<close>, which divides by zero when the scale is zero.
\<close>

definition left_up_cord :: "collab \<Rightarrow> BestTile \<Rightarrow> nat \<times> nat \<Rightarrow> dmap \<Rightarrow> error + nat list" where
  "left_up_cord ext self img_shape lap =
     (if 1 < scale self then
        (case resize ext lap (nat (int (snd img_shape) div scale self),
                              nat (int (fst img_shape) div scale self)) of
           Inl e \<Rightarrow> Inl e
         | Inr small \<Rightarrow>
             (case best_tile ext (squeeze small) (tile_size self div scale self) of
                Inl e \<Rightarrow> Inl e
              | Inr cord \<Rightarrow> Inr (tuple_mul [fst cord, snd cord] (scale self))))
      else if scale self = 0 then Inl ZeroDivisionError
      else (case best_tile ext (Arr2 lap) (tile_size self div scale self) of
              Inl e \<Rightarrow> Inl e
            | Inr cord \<Rightarrow> Inr [fst cord, snd cord]))"

text \<open>
  \<^verbatim>\<open>process\<close>. The crop reads \<^verbatim>\<open>left_up_cord[0]\<close> and \<^verbatim>\<open>left_up_cord[1]\<close>, which
  raise for a tuple with fewer components.
\<close>

definition process :: "collab \<Rightarrow> BestTile \<Rightarrow> string \<Rightarrow> fsys \<Rightarrow> error + fsys" where
  "process ext self img_name fs =
     (case read ext fs (in_folder self) img_name of
        Inl e \<Rightarrow> Inl e
      | Inr img \<Rightarrow>
          if int (length img) < tile_size self \<or> int (width img) < tile_size self
          then Inr fs
          else if int (length img) = tile_size self \<or> int (width img) = tile_size self
          then save ext img (out_folder self) img_name fs
          else (case left_up_cord ext self (length img, width img) (laplacian_abs ext img) of
                  Inl e \<Rightarrow> Inl e
                | Inr cord \<Rightarrow>
                    if length cord < 2 then Inl IndexError
                    else save ext (crop img (cord ! 0, cord ! 1) (tile_size self))
                           (out_folder self) (result_name img_name) fs))"

section \<open>The batch\<close>

text \<open>
  A job state is the file system with the number of completed jobs, the progress
  counter, which \<^verbatim>\<open>run\<close> creates at zero. \<^verbatim>\<open>update_and_process\<close> has no
  \<^verbatim>\<open>try\<close>: an exception of \<^verbatim>\<open>process\<close> leaves it before \<^verbatim>\<open>progress.advance\<close>.
\<close>

definition update_and_process ::
  "collab \<Rightarrow> BestTile \<Rightarrow> string \<Rightarrow> job_state \<Rightarrow> error + job_state" where
  "update_and_process ext self img_name st =
     (case process ext self img_name (fst st) of
        Inl e \<Rightarrow> Inl e
      | Inr fs' \<Rightarrow> Inr (fs', Suc (snd st)))"

text \<open>
  The \<^verbatim>\<open>for\<close> loop of \<^verbatim>\<open>run\<close>. The result is the exception that left the loop, if
  any, with the state reached when it was raised.
\<close>

fun for_loop ::
  "collab \<Rightarrow> BestTile \<Rightarrow> string list \<Rightarrow> job_state \<Rightarrow> error option \<times> job_state" where
  "for_loop ext self [] st = (None, st)"
| "for_loop ext self (n # ns) st =
     (case update_and_process ext self n st of
        Inl e \<Rightarrow> (Some e, st)
      | Inr st' \<Rightarrow> for_loop ext self ns st')"

text \<open>
  \<^verbatim>\<open>thread_map\<close>: the worker threads share the file system and the counter, and
  \<^verbatim>\<open>progress.advance\<close> is atomic, so the jobs take effect one after the other.
  \<open>sched\<close> lists the jobs that the pool starts, in the order in which they complete;
  the jobs that the executor cancels, once an exception has reached the caller, were
  never started and are not in it. A job that raises changes nothing and leaves its
  exception, kept with the name of its image.
\<close>

fun thread_map ::
  "collab \<Rightarrow> BestTile \<Rightarrow> string list \<Rightarrow> job_state \<Rightarrow> (string \<times> error) list \<times> job_state" where
  "thread_map ext self [] st = ([], st)"
| "thread_map ext self (n # ns) st =
     (case update_and_process ext self n st of
        Inl e \<Rightarrow> (case thread_map ext self ns st of (fails, st') \<Rightarrow> ((n, e) # fails, st'))
      | Inr st' \<Rightarrow> thread_map ext self ns st')"

text \<open>
  The results of the pool are read in the order of the images, so the exception that
  leaves \<^verbatim>\<open>thread_map\<close> is that of the first image in this order whose job raised.
\<close>

definition raised :: "string list \<Rightarrow> (string \<times> error) list \<Rightarrow> error option" where
  "raised items fails =
     (case filter (\<lambda>n. map_of fails n \<noteq> None) items of
        [] \<Rightarrow> None
      | n # ns \<Rightarrow> map_of fails n)"

text \<open>
  \<^verbatim>\<open>run\<close>, for the jobs \<open>sched\<close> that the thread pool runs, in the order in which
  it happens to complete them. The worker processes of \<^verbatim>\<open>process_map\<close> are left to
  the parameter of that name.
\<close>

definition run :: "collab \<Rightarrow> BestTile \<Rightarrow> string list \<Rightarrow> fsys \<Rightarrow> error option \<times> job_state" where
  "run ext self sched fs =
     (if process_type self = ''thread''
      then (case thread_map ext self sched (fs, 0) of
              (fails, st) \<Rightarrow> (raised (all_images self) fails, st))
      else if process_type self = ''process''
      then process_map ext (update_and_process ext self) (all_images self) (fs, 0)
      else for_loop ext self (all_images self) (fs, 0))"

text \<open>
  \<^verbatim>\<open>BestTile.__init__\<close>. An optional argument that the caller leaves out is \<open>None\<close>
  and takes the default of the signature. \<^verbatim>\<open>os.makedirs\<close> adds the output folder
  when \<^verbatim>\<open>os.path.exists\<close> does not find it; \<^verbatim>\<open>os.listdir\<close> raises for an input folder
  that does not exist, after the output folder was made.
\<close>

definition makedirs :: "string \<Rightarrow> fsys \<Rightarrow> fsys" where
  "makedirs dir fs = fs @ [(dir, [])]"

definition init ::
  "string \<Rightarrow> string \<Rightarrow> int option \<Rightarrow> string option \<Rightarrow> int option \<Rightarrow> fsys
     \<Rightarrow> (error + BestTile) \<times> fsys" where
  "init in_dir out_dir tile_arg type_arg scale_arg fs =
     (let fs1 = (if map_of fs out_dir = None then makedirs out_dir fs else fs)
      in case map_of fs1 in_dir of
           None \<Rightarrow> (Inl FileNotFoundError, fs1)
         | Some d \<Rightarrow>
             (Inr \<lparr> scale = (case scale_arg of None \<Rightarrow> 1 | Some s \<Rightarrow> s),
                    in_folder = in_dir,
                    out_folder = out_dir,
                    tile_size = (case tile_arg of None \<Rightarrow> 512 | Some t \<Rightarrow> t),
                    all_images = map fst d,
                    process_type = (case type_arg of None \<Rightarrow> ''sequential'' | Some p \<Rightarrow> p) \<rparr>,
              fs1))"

section \<open>An instance of the libraries\<close>

text \<open>
  The theorems below hold for any libraries. To run the program on concrete files they
  are instantiated with a small codec and the usual filters:
  \<^item> a file is a channel count (1 for grey, 3 for RGB), a width, and the samples of the
    pixels row by row, one byte each; reading gives three channels whatever the file
    has, writing always stores three, and the name must have an extension that names
    an image format (a name such as \<open>.png\<close> has none);
  \<^item> the BT.2020 luma, and the 4-neighbour Laplacian with the border pixels mirrored;
  \<^item> the box filter as an average over areas: every sample of the resized map is the
    mean of the map over the area it covers, for any new size;
  \<^item> the window search of the specification;
  \<^item> a pool of worker processes that cannot be handed the closure
    \<^verbatim>\<open>update_and_process\<close>.
\<close>

definition sample_of_byte :: "8 word \<Rightarrow> real" where
  "sample_of_byte b = real (unat b) / 255"

definition byte_of_sample :: "real \<Rightarrow> 8 word" where
  "byte_of_sample v = of_nat (nat \<lfloor>v * 255\<rfloor>)"

definition chop :: "nat \<Rightarrow> 'a list \<Rightarrow> 'a list list" where
  "chop n xs = map (\<lambda>i. take n (drop (i * n) xs)) [0..<length xs div n]"

definition raw_decode :: "bytes \<Rightarrow> error + image" where
  "raw_decode b =
     (case b of
        tag # w # samples \<Rightarrow>
          if (tag = 1 \<or> tag = 3) \<and> w \<noteq> 0 \<and> samples \<noteq> []
             \<and> length samples mod (unat tag * unat w) = 0
          then Inr (map (map (\<lambda>px. concat (map (\<lambda>s. let v = sample_of_byte s
                                                     in if tag = 1 then [v, v, v] else [v]) px)))
                      (chop (unat w) (chop (unat tag) samples)))
          else Inl InvalidImage
      | _ \<Rightarrow> Inl InvalidImage)"

text \<open>
  The extension of a file name, from which the format is chosen: what follows the last
  dot, and nothing for a name without a dot or with its only dot in front.
\<close>

definition file_extension :: "string \<Rightarrow> string option" where
  "file_extension name =
     (case rev (str_split (CHR ''.'') name) of
        [] \<Rightarrow> None
      | [whole] \<Rightarrow> None
      | [e, stem] \<Rightarrow> (if stem = [] then None else Some e)
      | e # stem # others \<Rightarrow> Some e)"

definition raw_encode :: "string \<Rightarrow> image \<Rightarrow> error + bytes" where
  "raw_encode name img =
     (if file_extension name \<in> {Some ''png'', Some ''jpg'', Some ''jpeg''}
         \<and> img \<noteq> [] \<and> width img \<noteq> 0 \<and> width img \<le> 255
      then Inr (3 # of_nat (width img) # map byte_of_sample (concat (concat img)))
      else Inl SaveError)"

definition bt2020 :: "real list \<Rightarrow> real" where
  "bt2020 px = 2627 / 10000 * px ! 0 + 6780 / 10000 * px ! 1 + 593 / 10000 * px ! 2"

definition reflect101 :: "nat \<Rightarrow> int \<Rightarrow> nat" where
  "reflect101 n i =
     (if n \<le> 1 then 0
      else if i < 0 then nat (- i)
      else if int n \<le> i then nat (2 * int n - 2 - i)
      else nat i)"

definition mirrored :: "dmap \<Rightarrow> int \<Rightarrow> int \<Rightarrow> real" where
  "mirrored m i j = m ! reflect101 (length m) i ! reflect101 (width m) j"

definition laplace4 :: "dmap \<Rightarrow> dmap" where
  "laplace4 m =
     map (\<lambda>i. map (\<lambda>j. mirrored m (int i - 1) (int j) + mirrored m (int i + 1) (int j)
                       + mirrored m (int i) (int j - 1) + mirrored m (int i) (int j + 1)
                       - 4 * mirrored m (int i) (int j))
                [0..<width m])
         [0..<length m]"

text \<open>
  The length of the part of the source cell \<open>[y, y + 1)\<close> that the resized cell \<open>i\<close>
  covers, \<open>[i * s, (i + 1) * s)\<close>, for the ratio \<open>s\<close> of the old to the new length.
\<close>

definition overlap :: "real \<Rightarrow> nat \<Rightarrow> nat \<Rightarrow> real" where
  "overlap s i y = max 0 (min (real y + 1) (real (Suc i) * s) - max (real y) (real i * s))"

definition box_resize :: "dmap \<Rightarrow> nat \<times> nat \<Rightarrow> error + dmap" where
  "box_resize m new_size =
     (let sy = real (length m) / real (snd new_size);
          sx = real (width m) / real (fst new_size)
      in Inr (map (\<lambda>i. map (\<lambda>j. (\<Sum>y\<leftarrow>[0..<length m]. \<Sum>x\<leftarrow>[0..<width m].
                                     m ! y ! x * overlap sy i y * overlap sx j x)
                                  / (sy * sx))
                         [0..<fst new_size])
                  [0..<snd new_size]))"

definition no_pickle ::
  "(string \<Rightarrow> job_state \<Rightarrow> error + job_state) \<Rightarrow> string list \<Rightarrow> job_state
     \<Rightarrow> error option \<times> job_state" where
  "no_pickle f items st = (if items = [] then (None, st) else (Some PicklingError, st))"

definition libs :: collab where
  "libs = \<lparr> decode = raw_decode, encode = raw_encode, cvt_color = map (map bt2020),
            Laplacian = laplace4, resize = box_resize, best_tile = window_search,
            process_map = no_pickle \<rparr>"

section \<open>A batch of files\<close>

text \<open>
  Concrete files for the instance above, an input folder holding them and an empty
  output folder. \<open>file_a\<close> and \<open>file_e\<close> are 3 by 3 grey images, \<open>file_b\<close> is 2 by 3,
  \<open>file_c\<close> is 1 by 3, \<open>file_d\<close> is no image at all, \<open>file_x\<close> and \<open>file_y\<close> are 4 by 4.
\<close>

definition file_a :: bytes where
  "file_a = [1, 3, 10, 20, 30, 40, 250, 60, 70, 80, 90]"

definition file_b :: bytes where
  "file_b = [1, 3, 1, 2, 3, 4, 5, 6]"

definition file_c :: bytes where
  "file_c = [1, 3, 7, 8, 9]"

definition file_d :: bytes where
  "file_d = [255, 216]"

definition file_e :: bytes where
  "file_e = [1, 3, 0, 0, 0, 0, 0, 0, 0, 0, 200]"

definition file_x :: bytes where
  "file_x = [1, 4, 0, 0, 0, 0, 0, 51, 51, 0, 0, 51, 51, 0, 0, 0, 0, 0]"

definition file_y :: bytes where
  "file_y = [1, 4, 0, 0, 0, 0, 0, 0, 0, 0, 0, 0, 0, 0, 0, 0, 0, 51]"

definition folder_in :: folder where
  "folder_in = [(''a.jpg'', file_a), (''b.png'', file_b), (''c'', file_c), (''d.png'', file_d),
                (''e.png'', file_e), (''x.png'', file_x), (''y.png'', file_y), (''w'', file_a),
                (''z'', file_e), (''s.png'', file_c)]"

definition disk :: fsys where
  "disk = [(''in'', folder_in), (''out'', [])]"

text \<open>The image that reading a grey file gives: the sample in each of three channels.\<close>

definition grey :: "dmap \<Rightarrow> image" where
  "grey m = map (map (\<lambda>v. [v, v, v])) m"

definition img_a :: image where
  "img_a = grey [[10 / 255, 20 / 255, 30 / 255], [40 / 255, 250 / 255, 60 / 255],
                 [70 / 255, 80 / 255, 90 / 255]]"

definition img_b :: image where
  "img_b = grey [[1 / 255, 2 / 255, 3 / 255], [4 / 255, 5 / 255, 6 / 255]]"

definition img_c :: image where
  "img_c = grey [[7 / 255, 8 / 255, 9 / 255]]"

definition img_e :: image where
  "img_e = grey [[0, 0, 0], [0, 0, 0], [0, 0, 200 / 255]]"

definition img_x :: image where
  "img_x = grey [[0, 0, 0, 0], [0, 1 / 5, 1 / 5, 0], [0, 1 / 5, 1 / 5, 0], [0, 0, 0, 0]]"

definition img_y :: image where
  "img_y = grey [[0, 0, 0, 0], [0, 0, 0, 0], [0, 0, 0, 0], [0, 0, 0, 1 / 5]]"

text \<open>The files the program writes for them.\<close>

definition tile_a :: bytes where
  "tile_a = [3, 2, 10, 10, 10, 20, 20, 20, 40, 40, 40, 250, 250, 250]"

definition tile_e :: bytes where
  "tile_e = [3, 2, 0, 0, 0, 0, 0, 0, 0, 0, 0, 200, 200, 200]"

definition tile_x :: bytes where
  "tile_x = [3, 2, 0, 0, 0, 0, 0, 0, 51, 51, 51, 51, 51, 51]"

definition whole_b :: bytes where
  "whole_b = [3, 3, 1, 1, 1, 2, 2, 2, 3, 3, 3, 4, 4, 4, 5, 5, 5, 6, 6, 6]"

text \<open>A \<^verbatim>\<open>BestTile\<close> object on these folders.\<close>

definition tiler :: "int \<Rightarrow> int \<Rightarrow> string \<Rightarrow> string list \<Rightarrow> BestTile" where
  "tiler t s mode names =
     \<lparr> scale = s, in_folder = ''in'', out_folder = ''out'', tile_size = t,
       all_images = names, process_type = mode \<rparr>"

section \<open>Properties of the window search\<close>

















section \<open>Properties of the program\<close>

subsection \<open>Slices and crops\<close>



subsection \<open>Output names\<close>


lemma str_split_no_sep: "sep \<notin> set s \<Longrightarrow> str_split sep s = [s]"
  by (induction s) auto




lemma result_name_no_dot: "CHR ''.'' \<notin> set n \<Longrightarrow> result_name n = ''.png''"
  by (simp add: result_name_def str_split_no_sep)


subsection \<open>The three branches of \<open>process\<close>\<close>

lemma process_skip:
  assumes "read ext fs (in_folder self) n = Inr img"
    and "int (length img) < tile_size self \<or> int (width img) < tile_size self"
  shows "process ext self n fs = Inr fs"
  using assms by (simp add: process_def)

lemma process_whole:
  assumes "read ext fs (in_folder self) n = Inr img"
    and "\<not> (int (length img) < tile_size self \<or> int (width img) < tile_size self)"
    and "int (length img) = tile_size self \<or> int (width img) = tile_size self"
  shows "process ext self n fs = save ext img (out_folder self) n fs"
  using assms by (simp add: process_def)

lemma tuple_mul_front:
  "0 < k \<Longrightarrow> tuple_mul [a, b] k ! 0 = a \<and> tuple_mul [a, b] k ! 1 = b
     \<and> 2 \<le> length (tuple_mul [a, b] k)"
proof -
  assume "0 < k"
  then obtain j where "nat k = Suc j"
    by (cases "nat k") auto
  then show ?thesis
    by (simp add: tuple_mul_def)
qed



lemma left_up_cord_length:
  "left_up_cord ext self shape lap = Inr cord \<Longrightarrow> 2 \<le> length cord"
  using tuple_mul_front[of "scale self"]
  by (auto simp: left_up_cord_def split: if_splits sum.splits)


lemma process_tile:
  assumes "read ext fs (in_folder self) n = Inr img"
    and "tile_size self < int (length img)" "tile_size self < int (width img)"
    and "left_up_cord ext self (length img, width img) (laplacian_abs ext img) = Inr cord"
  shows "process ext self n fs
         = save ext (crop img (cord ! 0, cord ! 1) (tile_size self)) (out_folder self)
             (result_name n) fs"
  using assms left_up_cord_length[OF assms(4)] by (simp add: process_def)


lemma map_of_written:
  "map_of (AList.update dir (AList.update name b d) fs) dir' =
     (if dir' = dir then Some (AList.update name b d) else map_of fs dir')"
  by (simp add: update_conv')

lemma keys_update_known: "map_of al k = Some v \<Longrightarrow> map fst (AList.update k v' al) = map fst al"
  by (induction al) (auto split: if_splits)

lemma save_keeps_folders:
  "save ext img dir name fs = Inr fs' \<Longrightarrow> map fst fs' = map fst fs"
  by (auto simp: save_def keys_update_known split: option.splits sum.splits)

lemma process_keeps_folders:
  "process ext self n fs = Inr fs' \<Longrightarrow> map fst fs' = map fst fs"
  by (auto simp: process_def Let_def split: sum.splits if_splits dest: save_keeps_folders)


subsection \<open>The loops of \<open>run\<close>\<close>

lemma update_and_process_counts:
  "update_and_process ext self n st = Inr st' \<Longrightarrow> snd st' = Suc (snd st)"
  by (auto simp: update_and_process_def split: sum.splits)

lemma for_loop_counts:
  "for_loop ext self ns st = (None, st') \<Longrightarrow> snd st' = snd st + length ns"
proof (induction ns arbitrary: st)
  case Nil
  then show ?case by simp
next
  case (Cons n ns)
  then show ?case
    by (auto split: sum.splits dest!: update_and_process_counts)
qed

lemma thread_map_counts:
  "fst (thread_map ext self ns st) = [] \<Longrightarrow>
   snd (snd (thread_map ext self ns st)) = snd st + length ns"
proof (induction ns arbitrary: st)
  case Nil
  then show ?case by simp
next
  case (Cons n ns)
  then show ?case
    by (auto split: sum.splits prod.splits dest!: update_and_process_counts)
qed

lemma thread_map_fails: "fst ` set (fst (thread_map ext self ns st)) \<subseteq> set ns"
proof (induction ns arbitrary: st)
  case Nil
  then show ?case by simp
next
  case (Cons n ns)
  show ?case
  proof (cases "update_and_process ext self n st")
    case (Inl e)
    obtain fails st' where tm: "thread_map ext self ns st = (fails, st')"
      by (cases "thread_map ext self ns st")
    have "fst ` set fails \<subseteq> set ns"
      using Cons[of st] by (simp add: tm)
    then show ?thesis
      using Inl by (auto simp: tm)
  next
    case (Inr st')
    then show ?thesis
      using Cons[of st'] by auto
  qed
qed

lemma raised_None:
  assumes "raised items fails = None" and "fst ` set fails \<subseteq> set items"
  shows "fails = []"
proof (rule ccontr)
  assume "fails \<noteq> []"
  then obtain n e where ne: "(n, e) \<in> set fails"
    by (cases fails) auto
  then have "n \<in> set items" and "map_of fails n \<noteq> None"
    using assms(2) by (auto simp: map_of_eq_None_iff intro: rev_image_eqI)
  then have "filter (\<lambda>n. map_of fails n \<noteq> None) items \<noteq> []"
    by (auto simp: filter_empty_conv)
  then obtain k ks where f: "filter (\<lambda>n. map_of fails n \<noteq> None) items = k # ks"
    by (cases "filter (\<lambda>n. map_of fails n \<noteq> None) items") auto
  then have "k \<in> set (filter (\<lambda>n. map_of fails n \<noteq> None) items)"
    by simp
  then have "map_of fails k \<noteq> None"
    by simp
  then show False
    using assms(1) f by (simp add: raised_def)
qed

lemma for_loop_append:
  "for_loop ext self pre st = (None, st1) \<Longrightarrow>
   for_loop ext self (pre @ ns) st = for_loop ext self ns st1"
  by (induction pre arbitrary: st) (auto split: sum.splits)

lemma for_loop_raises:
  assumes "for_loop ext self pre st = (None, st1)"
    and "update_and_process ext self bad st1 = Inl e"
  shows "for_loop ext self (pre @ bad # post) st = (Some e, st1)"
  using for_loop_append[OF assms(1), of "bad # post"] assms(2) by simp

lemma for_loop_keeps_folders:
  "map fst (fst (snd (for_loop ext self ns st))) = map fst (fst st)"
proof (induction ns arbitrary: st)
  case Nil
  then show ?case by simp
next
  case (Cons n ns)
  then show ?case
    by (auto simp: update_and_process_def split: sum.splits dest: process_keeps_folders)
qed

lemma thread_map_keeps_folders:
  "map fst (fst (snd (thread_map ext self ns st))) = map fst (fst st)"
proof (induction ns arbitrary: st)
  case Nil
  then show ?case by simp
next
  case (Cons n ns)
  show ?case
  proof (cases "update_and_process ext self n st")
    case (Inl e)
    obtain fails st' where tm: "thread_map ext self ns st = (fails, st')"
      by (cases "thread_map ext self ns st")
    show ?thesis
      using Cons[of st] Inl by (simp add: tm)
  next
    case (Inr st')
    then have "map fst (fst st') = map fst (fst st)"
      by (auto simp: update_and_process_def split: sum.splits dest: process_keeps_folders)
    then show ?thesis
      using Cons[of st'] Inr by simp
  qed
qed


section \<open>The program on the batch\<close>

lemma libs_sel:
  "decode libs = raw_decode" "encode libs = raw_encode" "cvt_color libs = map (map bt2020)"
  "Laplacian libs = laplace4" "resize libs = box_resize" "best_tile libs = window_search"
  "process_map libs = no_pickle"
  by (simp_all add: libs_def)

lemma tiler_sel:
  "scale (tiler t s mode names) = s" "in_folder (tiler t s mode names) = ''in''"
  "out_folder (tiler t s mode names) = ''out''" "tile_size (tiler t s mode names) = t"
  "all_images (tiler t s mode names) = names" "process_type (tiler t s mode names) = mode"
  by (simp_all add: tiler_def)

lemma bt2020_grey: "bt2020 [v, v, v] = v"
  by (simp add: bt2020_def)

lemma cvt_grey: "map (map bt2020) (grey m) = m"
  by (simp add: grey_def comp_def bt2020_grey)

lemma detail_grey: "laplacian_abs libs (grey m) = map (map abs) (laplace4 m)"
  by (simp add: laplacian_abs_def libs_sel cvt_grey)

lemmas decode_eval = raw_decode_def grey_def chop_def sample_of_byte_def upt_conv_Cons Let_def

lemma decode_a: "raw_decode file_a = Inr img_a"
  by (simp add: file_a_def img_a_def decode_eval)

lemma decode_b: "raw_decode file_b = Inr img_b"
  by (simp add: file_b_def img_b_def decode_eval)

lemma decode_c: "raw_decode file_c = Inr img_c"
  by (simp add: file_c_def img_c_def decode_eval)

lemma decode_d: "raw_decode file_d = Inl InvalidImage"
  by (simp add: raw_decode_def file_d_def)

lemma decode_e: "raw_decode file_e = Inr img_e"
  by (simp add: file_e_def img_e_def decode_eval)

lemma decode_x: "raw_decode file_x = Inr img_x"
  by (simp add: file_x_def img_x_def decode_eval)

lemma decode_y: "raw_decode file_y = Inr img_y"
  by (simp add: file_y_def img_y_def decode_eval)

lemma shapes:
  "length img_a = 3" "width img_a = 3" "length img_b = 2" "width img_b = 3"
  "length img_c = 1" "width img_c = 3" "length img_e = 3" "width img_e = 3"
  "length img_x = 4" "width img_x = 4" "length img_y = 4" "width img_y = 4"
  by (simp_all add: img_a_def img_b_def img_c_def img_e_def img_x_def img_y_def grey_def
      width_def)

lemma disk_folders: "map_of disk ''in'' = Some folder_in" "map_of disk ''out'' = Some []"
  by (simp_all add: disk_def)

lemma folder_entries:
  "map_of folder_in ''a.jpg'' = Some file_a" "map_of folder_in ''b.png'' = Some file_b"
  "map_of folder_in ''c'' = Some file_c" "map_of folder_in ''d.png'' = Some file_d"
  "map_of folder_in ''e.png'' = Some file_e" "map_of folder_in ''x.png'' = Some file_x"
  "map_of folder_in ''y.png'' = Some file_y" "map_of folder_in ''w'' = Some file_a"
  "map_of folder_in ''z'' = Some file_e" "map_of folder_in ''s.png'' = Some file_c"
  by (simp_all add: folder_in_def)

lemma read_in:
  "map_of fs ''in'' = Some folder_in \<Longrightarrow>
   read libs fs ''in'' n
     = (case map_of folder_in n of None \<Rightarrow> Inl FileNotFoundError | Some b \<Rightarrow> raw_decode b)"
  by (simp add: read_def libs_sel split: option.splits)

lemma reads:
  assumes "map_of fs ''in'' = Some folder_in"
  shows "read libs fs ''in'' ''a.jpg'' = Inr img_a" "read libs fs ''in'' ''b.png'' = Inr img_b"
    "read libs fs ''in'' ''c'' = Inr img_c" "read libs fs ''in'' ''d.png'' = Inl InvalidImage"
    "read libs fs ''in'' ''e.png'' = Inr img_e" "read libs fs ''in'' ''x.png'' = Inr img_x"
    "read libs fs ''in'' ''y.png'' = Inr img_y" "read libs fs ''in'' ''w'' = Inr img_a"
    "read libs fs ''in'' ''z'' = Inr img_e" "read libs fs ''in'' ''s.png'' = Inr img_c"
  by (simp_all add: read_in[OF assms] folder_entries decode_a decode_b decode_c decode_d
      decode_e decode_x decode_y)

lemmas detail_eval = detail_grey laplace4_def mirrored_def reflect101_def width_def

lemma detail_a:
  "laplacian_abs libs img_a
     = [[16 / 51, 92 / 51, 8 / 51], [28 / 17, 160 / 51, 76 / 51], [8 / 51, 4 / 3, 16 / 51]]"
  by (simp add: img_a_def detail_eval)

lemma detail_e:
  "laplacian_abs libs img_e = [[0, 0, 0], [0, 0, 40 / 51], [0, 40 / 51, 160 / 51]]"
  by (simp add: img_e_def detail_eval)

lemma detail_x:
  "laplacian_abs libs img_x
     = [[0, 2 / 5, 2 / 5, 0], [2 / 5, 2 / 5, 2 / 5, 2 / 5], [2 / 5, 2 / 5, 2 / 5, 2 / 5],
        [0, 2 / 5, 2 / 5, 0]]"
  by (simp add: img_x_def detail_eval)

lemma detail_y:
  "laplacian_abs libs img_y
     = [[0, 0, 0, 0], [0, 0, 0, 0], [0, 0, 0, 1 / 5], [0, 0, 1 / 5, 4 / 5]]"
  by (simp add: img_y_def detail_eval)

lemmas search_eval = search_def Let_def integral_def candidates_def keep_best_def
  window_sum_def width_def

lemmas resize_eval = box_resize_def overlap_def width_def Let_def upt_conv_Cons

lemma cord_a:
  "left_up_cord libs (tiler 2 1 mode names) (3, 3) (laplacian_abs libs img_a) = Inr [0, 0]"
  by (simp add: detail_a left_up_cord_def tiler_sel libs_sel search_eval)

lemma cord_e:
  "left_up_cord libs (tiler 2 1 mode names) (3, 3) (laplacian_abs libs img_e)
     = Inr [Suc 0, Suc 0]"
  by (simp add: detail_e left_up_cord_def tiler_sel libs_sel search_eval)

lemma cord_x:
  "left_up_cord libs (tiler 2 1 mode names) (4, 4) (laplacian_abs libs img_x) = Inr [0, Suc 0]"
  by (simp add: detail_x left_up_cord_def tiler_sel libs_sel search_eval)

text \<open>The 4 by 4 files with the search at half the resolution.\<close>

lemma resize_x:
  "box_resize (laplacian_abs libs img_x) (2, 2) = Inr [[3 / 10, 3 / 10], [3 / 10, 3 / 10]]"
  by (simp add: detail_x resize_eval)

lemma resize_y:
  "box_resize (laplacian_abs libs img_y) (2, 2) = Inr [[0, 0], [0, 3 / 10]]"
  by (simp add: detail_y resize_eval)


lemma search_half_y: "window_search (squeeze [[0, 0], [0, 3 / 10]]) 1 = Inr (Suc 0, Suc 0)"
  by (simp add: squeeze_def search_eval)

lemma tuple_twice: "tuple_mul [a, b] 2 = [a, b, a, b]"
  by (simp add: tuple_mul_def numeral_2_eq_2)


lemma cord_y_half:
  "left_up_cord libs (tiler 2 2 mode names) (4, 4) (laplacian_abs libs img_y)
     = Inr [Suc 0, Suc 0, Suc 0, Suc 0]"
  by (simp add: left_up_cord_def tiler_sel libs_sel resize_y search_half_y tuple_twice)

lemma cord_x_below_one:
  "left_up_cord libs (tiler 1 2 mode names) (4, 4) (laplacian_abs libs img_x)
     = Inl InvalidTileSize"
  by (simp add: left_up_cord_def tiler_sel libs_sel resize_x squeeze_def width_def)


text \<open>The names the sample codec has a format for, and the files it writes.\<close>

lemma extensions:
  "file_extension ''a.png'' = Some ''png''" "file_extension ''b.png'' = Some ''png''"
  "file_extension ''e.png'' = Some ''png''" "file_extension ''x.png'' = Some ''png''"
  "file_extension ''y.png'' = Some ''png''" "file_extension ''s.png'' = Some ''png''"
  "file_extension ''.png'' = None" "file_extension ''w'' = None"
  by (simp_all add: file_extension_def)

lemmas encode_eval = raw_encode_def crop_def slice_def grey_def width_def byte_of_sample_def
  Let_def

lemma encode_tile_a:
  "file_extension name = Some ''png'' \<Longrightarrow> raw_encode name (crop img_a (0, 0) 2) = Inr tile_a"
  by (simp add: img_a_def tile_a_def encode_eval)

lemma encode_tile_e:
  "file_extension name = Some ''png'' \<Longrightarrow>
   raw_encode name (crop img_e (Suc 0, Suc 0) 2) = Inr tile_e"
  by (simp add: img_e_def tile_e_def encode_eval)

lemma encode_tile_x:
  "file_extension name = Some ''png'' \<Longrightarrow>
   raw_encode name (crop img_x (0, Suc 0) 2) = Inr tile_x"
  by (simp add: img_x_def tile_x_def encode_eval)

lemma encode_tiles_y:
  "raw_encode ''y.png'' (crop img_y (Suc 0, Suc 0) 2)
     = Inr [3, 2, 0, 0, 0, 0, 0, 0, 0, 0, 0, 0, 0, 0]"
  "raw_encode ''y.png'' (crop img_y (2, 2) 2)
     = Inr [3, 2, 0, 0, 0, 0, 0, 0, 0, 0, 0, 51, 51, 51]"
  by (simp_all add: img_y_def extensions encode_eval)

lemma encode_whole_b:
  "file_extension name = Some ''png'' \<Longrightarrow> raw_encode name img_b = Inr whole_b"
  by (simp add: img_b_def whole_b_def encode_eval)


lemma encode_no_format: "file_extension name = None \<Longrightarrow> raw_encode name img = Inl SaveError"
  by (simp add: raw_encode_def)

lemma names_png:
  "result_name ''a.jpg'' = ''a.png''" "result_name ''e.png'' = ''e.png''"
  "result_name ''x.png'' = ''x.png''" "result_name ''y.png'' = ''y.png''"
  "result_name ''w'' = ''.png''" "result_name ''z'' = ''.png''"
  by (simp_all add: result_name_def)

text \<open>
  What \<open>process\<close> does with each file of the batch for tile size 2 and scale 1, on the
  input folder with any output folder \<open>d\<close>.
\<close>

lemma process_a:
  "process libs (tiler 2 1 mode names) ''a.jpg'' [(''in'', folder_in), (''out'', d)]
     = Inr [(''in'', folder_in), (''out'', AList.update ''a.png'' tile_a d)]"
proof -
  have rd: "read libs [(''in'', folder_in), (''out'', d)] (in_folder (tiler 2 1 mode names)) ''a.jpg''
              = Inr img_a"
    by (simp add: reads tiler_sel)
  have c: "left_up_cord libs (tiler 2 1 mode names) (length img_a, width img_a)
             (laplacian_abs libs img_a) = Inr [0, 0]"
    by (simp add: shapes cord_a)
  show ?thesis
    using process_tile[OF rd _ _ c]
    by (simp add: shapes tiler_sel names_png save_def libs_sel encode_tile_a extensions)
qed

lemma process_b:
  "process libs (tiler 2 1 mode names) ''b.png'' [(''in'', folder_in), (''out'', d)]
     = Inr [(''in'', folder_in), (''out'', AList.update ''b.png'' whole_b d)]"
proof -
  have rd: "read libs [(''in'', folder_in), (''out'', d)] (in_folder (tiler 2 1 mode names)) ''b.png''
              = Inr img_b"
    by (simp add: reads tiler_sel)
  show ?thesis
    using process_whole[OF rd]
    by (simp add: shapes tiler_sel save_def libs_sel encode_whole_b extensions)
qed

lemma process_c:
  "process libs (tiler 2 1 mode names) ''c'' [(''in'', folder_in), (''out'', d)]
     = Inr [(''in'', folder_in), (''out'', d)]"
proof -
  have rd: "read libs [(''in'', folder_in), (''out'', d)] (in_folder (tiler 2 1 mode names)) ''c''
              = Inr img_c"
    by (simp add: reads tiler_sel)
  show ?thesis
    using process_skip[OF rd] by (simp add: shapes tiler_sel)
qed

lemma process_d:
  "process libs (tiler 2 1 mode names) ''d.png'' [(''in'', folder_in), (''out'', d)]
     = Inl InvalidImage"
  by (simp add: process_def reads tiler_sel)

lemma process_e:
  "process libs (tiler 2 1 mode names) ''e.png'' [(''in'', folder_in), (''out'', d)]
     = Inr [(''in'', folder_in), (''out'', AList.update ''e.png'' tile_e d)]"
proof -
  have rd: "read libs [(''in'', folder_in), (''out'', d)] (in_folder (tiler 2 1 mode names)) ''e.png''
              = Inr img_e"
    by (simp add: reads tiler_sel)
  have c: "left_up_cord libs (tiler 2 1 mode names) (length img_e, width img_e)
             (laplacian_abs libs img_e) = Inr [Suc 0, Suc 0]"
    by (simp add: shapes cord_e)
  show ?thesis
    using process_tile[OF rd _ _ c]
    by (simp add: shapes tiler_sel names_png save_def libs_sel encode_tile_e extensions)
qed

lemma process_x:
  "process libs (tiler 2 1 mode names) ''x.png'' [(''in'', folder_in), (''out'', d)]
     = Inr [(''in'', folder_in), (''out'', AList.update ''x.png'' tile_x d)]"
proof -
  have rd: "read libs [(''in'', folder_in), (''out'', d)] (in_folder (tiler 2 1 mode names)) ''x.png''
              = Inr img_x"
    by (simp add: reads tiler_sel)
  have c: "left_up_cord libs (tiler 2 1 mode names) (length img_x, width img_x)
             (laplacian_abs libs img_x) = Inr [0, Suc 0]"
    by (simp add: shapes cord_x)
  show ?thesis
    using process_tile[OF rd _ _ c]
    by (simp add: shapes tiler_sel names_png save_def libs_sel encode_tile_x extensions)
qed

lemma process_w:
  "process libs (tiler 2 1 mode names) ''w'' [(''in'', folder_in), (''out'', d)] = Inl SaveError"
proof -
  have rd: "read libs [(''in'', folder_in), (''out'', d)] (in_folder (tiler 2 1 mode names)) ''w''
              = Inr img_a"
    by (simp add: reads tiler_sel)
  have c: "left_up_cord libs (tiler 2 1 mode names) (length img_a, width img_a)
             (laplacian_abs libs img_a) = Inr [0, 0]"
    by (simp add: shapes cord_a)
  show ?thesis
    using process_tile[OF rd _ _ c]
    by (simp add: shapes tiler_sel names_png save_def libs_sel encode_no_format extensions)
qed

lemmas process_batch = process_a process_b process_c process_d process_e process_x process_w

text \<open>The file \<open>y.png\<close> with tile size 2 and scale 2: the tile is cut at \<open>(1, 1)\<close>.\<close>

lemma process_y_half:
  "process libs (tiler 2 2 mode names) ''y.png'' [(''in'', folder_in), (''out'', d)]
     = Inr [(''in'', folder_in),
            (''out'', AList.update ''y.png'' [3, 2, 0, 0, 0, 0, 0, 0, 0, 0, 0, 0, 0, 0] d)]"
proof -
  have rd: "read libs [(''in'', folder_in), (''out'', d)] (in_folder (tiler 2 2 mode names)) ''y.png''
              = Inr img_y"
    by (simp add: reads tiler_sel)
  have c: "left_up_cord libs (tiler 2 2 mode names) (length img_y, width img_y)
             (laplacian_abs libs img_y) = Inr [Suc 0, Suc 0, Suc 0, Suc 0]"
    by (simp add: shapes cord_y_half)
  show ?thesis
    using process_tile[OF rd _ _ c]
    by (simp add: shapes tiler_sel names_png save_def libs_sel encode_tiles_y)
qed


section \<open>The claims\<close>




text \<open>
  C2, as amended. In the sequential mode an error raised for one image is not caught:
  it leaves \<open>run\<close> at that image. The images listed before it have been processed
  and counted, the images after it are not processed, and nothing records the failure.
\<close>

theorem sequential_run_stops_at_error:
  assumes "process_type self \<noteq> ''thread''" and "process_type self \<noteq> ''process''"
    and "all_images self = pre @ bad # post"
    and "for_loop ext self pre (fs, 0) = (None, st1)"
    and "process ext self bad (fst st1) = Inl e"
  shows "run ext self sched fs = (Some e, st1) \<and> snd st1 = length pre"
proof -
  have "update_and_process ext self bad st1 = Inl e"
    using assms(5) by (simp add: update_and_process_def)
  then have "for_loop ext self (pre @ bad # post) (fs, 0) = (Some e, st1)"
    by (rule for_loop_raises[OF assms(4)])
  moreover have "snd st1 = length pre"
    using for_loop_counts[OF assms(4)] by simp
  ultimately show ?thesis
    using assms(1-3) by (simp add: run_def)
qed

theorem sequential_run_stops_at_error_witness:
  "process_type (tiler 2 1 ''sequential'' [''a.jpg'', ''d.png'', ''b.png'', ''c'', ''e.png''])
     \<noteq> ''thread'' \<and>
   process_type (tiler 2 1 ''sequential'' [''a.jpg'', ''d.png'', ''b.png'', ''c'', ''e.png''])
     \<noteq> ''process'' \<and>
   all_images (tiler 2 1 ''sequential'' [''a.jpg'', ''d.png'', ''b.png'', ''c'', ''e.png''])
     = [''a.jpg''] @ ''d.png'' # [''b.png'', ''c'', ''e.png''] \<and>
   for_loop libs (tiler 2 1 ''sequential'' [''a.jpg'', ''d.png'', ''b.png'', ''c'', ''e.png''])
       [''a.jpg''] (disk, 0)
     = (None, [(''in'', folder_in), (''out'', [(''a.png'', tile_a)])], Suc 0) \<and>
   process libs (tiler 2 1 ''sequential'' [''a.jpg'', ''d.png'', ''b.png'', ''c'', ''e.png''])
       ''d.png'' (fst ([(''in'', folder_in), (''out'', [(''a.png'', tile_a)])], Suc 0))
     = Inl InvalidImage \<and>
   run libs (tiler 2 1 ''sequential'' [''a.jpg'', ''d.png'', ''b.png'', ''c'', ''e.png'']) [] disk
     = (Some InvalidImage, [(''in'', folder_in), (''out'', [(''a.png'', tile_a)])], Suc 0) \<and>
   snd ([(''in'', folder_in), (''out'', [(''a.png'', tile_a)])], Suc 0) = length [''a.jpg'']"
proof -
  let ?T = "tiler 2 1 ''sequential'' [''a.jpg'', ''d.png'', ''b.png'', ''c'', ''e.png'']"
  let ?st = "([(''in'', folder_in), (''out'', [(''a.png'', tile_a)])], Suc 0)"
  have h1: "process_type ?T \<noteq> ''thread''" and h2: "process_type ?T \<noteq> ''process''"
    by (simp_all add: tiler_sel)
  have h3: "all_images ?T = [''a.jpg''] @ ''d.png'' # [''b.png'', ''c'', ''e.png'']"
    by (simp add: tiler_sel)
  have h4: "for_loop libs ?T [''a.jpg''] (disk, 0) = (None, ?st)"
    by (simp add: update_and_process_def disk_def process_batch)
  have h5: "process libs ?T ''d.png'' (fst ?st) = Inl InvalidImage"
    by (simp add: process_batch)
  from sequential_run_stops_at_error[OF h1 h2 h3 h4 h5, of "[]"] h1 h2 h3 h4 h5
  show ?thesis by (intro conjI) simp_all
qed

text \<open>
  The claim as stated fails. In a batch of five images whose second file cannot be
  decoded, \<open>run\<close> ends at that file: the error is returned to the caller, one job has
  been counted, and \<open>b.png\<close>, which would have been written had its turn come, is not
  in the output folder.
\<close>

theorem batch_aborts_at_corrupt_image:
  "length (all_images (tiler 2 1 ''sequential'' [''a.jpg'', ''d.png'', ''b.png'', ''c'', ''e.png'']))
     = 5 \<and>
   run libs (tiler 2 1 ''sequential'' [''a.jpg'', ''d.png'', ''b.png'', ''c'', ''e.png'']) [] disk
     = (Some InvalidImage, [(''in'', folder_in), (''out'', [(''a.png'', tile_a)])], 1) \<and>
   process libs (tiler 2 1 ''sequential'' [''a.jpg'', ''d.png'', ''b.png'', ''c'', ''e.png''])
       ''b.png'' [(''in'', folder_in), (''out'', [(''a.png'', tile_a)])]
     = Inr [(''in'', folder_in), (''out'', [(''a.png'', tile_a), (''b.png'', whole_b)])]"
  by (simp add: run_def tiler_sel update_and_process_def disk_def process_batch)




text \<open>
  C4. An image with a side below the tile size produces no output: \<open>process\<close> returns
  with the file system as it was, and the job counts as completed, not as an error.
\<close>

theorem undersized_image_skipped:
  assumes "read ext fs (in_folder self) n = Inr img"
    and "int (length img) < tile_size self \<or> int (width img) < tile_size self"
  shows "process ext self n fs = Inr fs \<and>
         update_and_process ext self n (fs, k) = Inr (fs, Suc k)"
  using assms by (simp add: update_and_process_def process_skip)

theorem undersized_image_skipped_witness:
  "read libs disk (in_folder (tiler 2 1 ''sequential'' [''c''])) ''c'' = Inr img_c \<and>
   int (length img_c) < tile_size (tiler 2 1 ''sequential'' [''c'']) \<and>
   process libs (tiler 2 1 ''sequential'' [''c'']) ''c'' disk = Inr disk \<and>
   update_and_process libs (tiler 2 1 ''sequential'' [''c'']) ''c'' (disk, 0)
     = Inr (disk, Suc 0)"
proof -
  let ?T = "tiler 2 1 ''sequential'' [''c'']"
  have rd: "read libs disk (in_folder ?T) ''c'' = Inr img_c"
    by (simp add: tiler_sel reads disk_folders)
  have small: "int (length img_c) < tile_size ?T"
    by (simp add: shapes tiler_sel)
  from undersized_image_skipped[OF rd disjI1[OF small], of 0] rd small
  show ?thesis by blast
qed

text \<open>
  C5. The claim reads the product in \<^verbatim>\<open>best_tile(...) * self.scale\<close> as the
  coordinate multiplied by the scale, and the program does not do that: the tuple that
  \<^verbatim>\<open>best_tile\<close> returns is repeated, and the tile is cut at the coordinate found on
  the resized map itself. For the 4 by 4 file \<open>y.png\<close>, whose only bright pixel is in
  the last row and column, with tile size 2 and scale 2: the detail map is resized to 2
  by 2 and searched with tile size 1, the search returns \<open>(1, 1)\<close>, the claim puts the
  tile at \<open>(2, 2)\<close>, where it ends with the bright pixel, and the program cuts it at
  \<open>(1, 1)\<close> and writes a black tile.
\<close>

theorem scaled_crop_at_unscaled_coordinate:
  "read libs disk ''in'' ''y.png'' = Inr img_y \<and> length img_y = 4 \<and> width img_y = 4 \<and>
   resize libs (laplacian_abs libs img_y) (2, 2) = Inr [[0, 0], [0, 3 / 10]] \<and>
   best_tile libs (squeeze [[0, 0], [0, 3 / 10]]) 1 = Inr (1, 1) \<and>
   left_up_cord libs (tiler 2 2 ''sequential'' [''y.png'']) (4, 4) (laplacian_abs libs img_y)
     = Inr [1, 1, 1, 1] \<and>
   process libs (tiler 2 2 ''sequential'' [''y.png'']) ''y.png'' disk
     = Inr [(''in'', folder_in), (''out'', [(''y.png'', [3, 2, 0, 0, 0, 0, 0, 0, 0, 0, 0, 0, 0, 0])])]
   \<and>
   encode libs ''y.png'' (crop img_y (1, 1) 2) = Inr [3, 2, 0, 0, 0, 0, 0, 0, 0, 0, 0, 0, 0, 0] \<and>
   encode libs ''y.png'' (crop img_y (2, 2) 2) = Inr [3, 2, 0, 0, 0, 0, 0, 0, 0, 0, 0, 51, 51, 51]"
  by (simp add: reads disk_folders shapes libs_sel resize_y search_half_y cord_y_half disk_def
      process_y_half encode_tiles_y)




text \<open>
  C7. A job whose \<open>process\<close> returns, whatever it did, advances the counter by one.
  A run in the sequential or the thread mode in which no job raises ends with the
  counter at the number of images, for every order in which the threads complete
  the jobs.
\<close>

theorem progress_counts_each_job:
  "(\<forall>fs'. process ext self n fs = Inr fs'
      \<longrightarrow> update_and_process ext self n (fs, k) = Inr (fs', Suc k)) \<and>
   (process_type self \<noteq> ''process''
      \<and> (process_type self = ''thread'' \<longrightarrow> mset sched = mset (all_images self))
      \<and> fst (run ext self sched fs) = None
      \<longrightarrow> snd (snd (run ext self sched fs)) = length (all_images self))"
proof -
  have a: "\<forall>fs'. process ext self n fs = Inr fs'
      \<longrightarrow> update_and_process ext self n (fs, k) = Inr (fs', Suc k)"
    by (simp add: update_and_process_def)
  have b: "snd (snd (run ext self sched fs)) = length (all_images self)"
    if h1: "process_type self \<noteq> ''process''"
      and h2: "process_type self = ''thread'' \<longrightarrow> mset sched = mset (all_images self)"
      and h3: "fst (run ext self sched fs) = None"
  proof (cases "process_type self = ''thread''")
    case True
    obtain fails st where tm: "thread_map ext self sched (fs, 0) = (fails, st)"
      by (cases "thread_map ext self sched (fs, 0)")
    have "set sched = set (all_images self)"
      using h2 True by (metis set_mset_mset)
    then have "fst ` set fails \<subseteq> set (all_images self)"
      using thread_map_fails[of ext self sched "(fs, 0)"] by (simp add: tm)
    moreover have "raised (all_images self) fails = None"
      using h3 True by (simp add: run_def tm)
    ultimately have "fails = []"
      by (intro raised_None)
    then have "snd st = length sched"
      using thread_map_counts[of ext self sched "(fs, 0)"] by (simp add: tm)
    moreover have "length sched = length (all_images self)"
      using h2 True by (metis size_mset)
    ultimately show ?thesis
      using True by (simp add: run_def tm)
  next
    case False
    obtain st' where "for_loop ext self (all_images self) (fs, 0) = (None, st')"
      using h1 h3 False by (cases "for_loop ext self (all_images self) (fs, 0)") (simp add: run_def)
    then show ?thesis
      using h1 False for_loop_counts[of ext self "all_images self" "(fs, 0)" st']
      by (simp add: run_def)
  qed
  show ?thesis using a b by blast
qed

theorem progress_counts_each_job_witness:
  "process libs (tiler 2 1 ''thread'' [''a.jpg'', ''b.png'', ''c'', ''e.png'', ''x.png'']) ''c'' disk
     = Inr disk \<and>
   update_and_process libs (tiler 2 1 ''thread'' [''a.jpg'', ''b.png'', ''c'', ''e.png'', ''x.png''])
     ''c'' (disk, 0) = Inr (disk, Suc 0) \<and>
   process_type (tiler 2 1 ''thread'' [''a.jpg'', ''b.png'', ''c'', ''e.png'', ''x.png''])
     = ''thread'' \<and>
   mset [''x.png'', ''c'', ''a.jpg'', ''e.png'', ''b.png'']
     = mset (all_images (tiler 2 1 ''thread'' [''a.jpg'', ''b.png'', ''c'', ''e.png'', ''x.png''])) \<and>
   fst (run libs (tiler 2 1 ''thread'' [''a.jpg'', ''b.png'', ''c'', ''e.png'', ''x.png''])
          [''x.png'', ''c'', ''a.jpg'', ''e.png'', ''b.png''] disk) = None \<and>
   snd (snd (run libs (tiler 2 1 ''thread'' [''a.jpg'', ''b.png'', ''c'', ''e.png'', ''x.png''])
               [''x.png'', ''c'', ''a.jpg'', ''e.png'', ''b.png''] disk)) = 5"
proof -
  let ?T = "tiler 2 1 ''thread'' [''a.jpg'', ''b.png'', ''c'', ''e.png'', ''x.png'']"
  let ?sched = "[''x.png'', ''c'', ''a.jpg'', ''e.png'', ''b.png'']"
  note t = progress_counts_each_job[of libs ?T "''c''" disk 0 ?sched]
  have p: "process libs ?T ''c'' disk = Inr disk"
    by (simp add: disk_def process_c)
  have u: "update_and_process libs ?T ''c'' (disk, 0) = Inr (disk, Suc 0)"
    using t[THEN conjunct1, rule_format, OF p] .
  have m: "process_type ?T = ''thread''" and np: "process_type ?T \<noteq> ''process''"
    by (simp_all add: tiler_sel)
  have ms: "mset ?sched = mset (all_images ?T)"
    by (simp add: tiler_sel)
  have r: "run libs ?T ?sched disk
             = (None, [(''in'', folder_in),
                       (''out'', [(''x.png'', tile_x), (''a.png'', tile_a), (''e.png'', tile_e),
                                  (''b.png'', whole_b)])], 5)"
    by (simp add: run_def tiler_sel update_and_process_def disk_def process_batch raised_def)
  have f: "fst (run libs ?T ?sched disk) = None"
    by (simp add: r)
  have "snd (snd (run libs ?T ?sched disk)) = length (all_images ?T)"
    using t[THEN conjunct2, rule_format, OF conjI[OF np conjI[OF impI[OF ms] f]]] .
  then have c: "snd (snd (run libs ?T ?sched disk)) = 5"
    by (simp add: tiler_sel)
  show ?thesis
    using p u m ms f c by (intro conjI)
qed



text \<open>
  C9. The defaults of the constructor are tile size 512, mode \<open>sequential\<close> and scale
  1. The output folder exists once the constructor has run, made there when it was
  absent and left alone otherwise; processing an image or running the batch (in the
  sequential and the thread mode) never adds a folder.
\<close>

theorem init_defaults_and_output_folder:
  "(\<forall>obj fs'. init in_dir out_dir None None None fs = (Inr obj, fs')
      \<longrightarrow> tile_size obj = 512 \<and> process_type obj = ''sequential'' \<and> scale obj = 1) \<and>
   map_of (snd (init in_dir out_dir t p s fs)) out_dir \<noteq> None \<and>
   (map_of fs out_dir \<noteq> None \<longrightarrow> snd (init in_dir out_dir t p s fs) = fs) \<and>
   (map_of fs out_dir = None \<longrightarrow> snd (init in_dir out_dir t p s fs) = fs @ [(out_dir, [])]) \<and>
   (\<forall>fs'. process ext self n fs = Inr fs' \<longrightarrow> map fst fs' = map fst fs) \<and>
   (process_type self \<noteq> ''process''
      \<longrightarrow> map fst (fst (snd (run ext self sched fs))) = map fst fs)"
proof -
  have a: "\<forall>obj fs'. init in_dir out_dir None None None fs = (Inr obj, fs')
      \<longrightarrow> tile_size obj = 512 \<and> process_type obj = ''sequential'' \<and> scale obj = 1"
    by (auto simp: init_def Let_def split: option.splits)
  have snd_init: "snd (init in_dir out_dir t p s fs)
      = (if map_of fs out_dir = None then fs @ [(out_dir, [])] else fs)"
    by (simp add: init_def Let_def makedirs_def split: option.splits)
  have b: "map_of (snd (init in_dir out_dir t p s fs)) out_dir \<noteq> None"
    by (auto simp: snd_init map_add_def split: option.splits)
  have c: "process_type self \<noteq> ''process''
      \<longrightarrow> map fst (fst (snd (run ext self sched fs))) = map fst fs"
    using thread_map_keeps_folders[of ext self sched "(fs, 0)"]
    by (cases "thread_map ext self sched (fs, 0)") (simp add: run_def for_loop_keeps_folders)
  show ?thesis
    using a b c by (auto simp: snd_init dest: process_keeps_folders)
qed

theorem init_defaults_and_output_folder_witness:
  "init ''in'' ''out2'' None None None disk
     = (Inr (tiler 512 1 ''sequential''
               [''a.jpg'', ''b.png'', ''c'', ''d.png'', ''e.png'', ''x.png'', ''y.png'', ''w'',
                ''z'', ''s.png'']\<lparr>out_folder := ''out2''\<rparr>),
        disk @ [(''out2'', [])]) \<and>
   tile_size (tiler 512 1 ''sequential''
               [''a.jpg'', ''b.png'', ''c'', ''d.png'', ''e.png'', ''x.png'', ''y.png'', ''w'',
                ''z'', ''s.png'']\<lparr>out_folder := ''out2''\<rparr>) = 512 \<and>
   map_of disk ''out2'' = None \<and>
   map_of (snd (init ''in'' ''out2'' None None None disk)) ''out2'' \<noteq> None \<and>
   snd (init ''in'' ''out2'' None None None disk) = disk @ [(''out2'', [])] \<and>
   map_of disk ''out'' \<noteq> None \<and>
   snd (init ''in'' ''out'' (Some 2) None None disk) = disk \<and>
   process libs (tiler 2 1 ''sequential'' [''a.jpg'']) ''a.jpg'' disk
     = Inr [(''in'', folder_in), (''out'', [(''a.png'', tile_a)])] \<and>
   map fst [(''in'', folder_in), (''out'', [(''a.png'', tile_a)])] = map fst disk \<and>
   process_type (tiler 2 1 ''sequential'' [''a.jpg'']) \<noteq> ''process'' \<and>
   map fst (fst (snd (run libs (tiler 2 1 ''sequential'' [''a.jpg'']) [] disk))) = map fst disk"
proof -
  let ?obj = "tiler 512 1 ''sequential''
               [''a.jpg'', ''b.png'', ''c'', ''d.png'', ''e.png'', ''x.png'', ''y.png'', ''w'',
                ''z'', ''s.png'']\<lparr>out_folder := ''out2''\<rparr>"
  let ?T = "tiler 2 1 ''sequential'' [''a.jpg'']"
  have i: "init ''in'' ''out2'' None None None disk = (Inr ?obj, disk @ [(''out2'', [])])"
    by (simp add: init_def makedirs_def disk_def tiler_def folder_in_def)
  have a: "map_of disk ''out2'' = None" and b: "map_of disk ''out'' \<noteq> None"
    by (simp_all add: disk_def)
  have p: "process libs ?T ''a.jpg'' disk = Inr [(''in'', folder_in), (''out'', [(''a.png'', tile_a)])]"
    by (simp add: disk_def process_a)
  have m: "process_type ?T \<noteq> ''process''"
    by (simp add: tiler_sel)
  note t1 = init_defaults_and_output_folder[of "''in''" "''out2''" disk None None None libs ?T
      "''a.jpg''" "[]"]
  note t2 = init_defaults_and_output_folder[of "''in''" "''out''" disk "Some 2" None None libs ?T
      "''a.jpg''" "[]"]
  have "tile_size ?obj = 512"
    using t1 i by blast
  moreover have "map_of (snd (init ''in'' ''out2'' None None None disk)) ''out2'' \<noteq> None"
    using t1 by blast
  moreover have "snd (init ''in'' ''out2'' None None None disk) = disk @ [(''out2'', [])]"
    using t1 a by blast
  moreover have "snd (init ''in'' ''out'' (Some 2) None None disk) = disk"
    using t2 b by blast
  moreover have "map fst [(''in'', folder_in), (''out'', [(''a.png'', tile_a)])] = map fst disk"
    using t1 p by blast
  moreover have "map fst (fst (snd (run libs ?T [] disk))) = map fst disk"
    using t1 m by blast
  ultimately show ?thesis
    using i a b p m by blast
qed

text \<open>
  C10, as amended. A name without a dot gives the output name \<open>.png\<close>, so every such
  input that reaches the crop is handed to \<^verbatim>\<open>save\<close> under the same name \<open>.png\<close> of the
  output folder. When \<^verbatim>\<open>save\<close> rejects that name, in which the image library finds no
  format, its error ends the job and nothing is written.
\<close>

theorem extensionless_names_share_output:
  assumes "CHR ''.'' \<notin> set n"
    and "read ext fs (in_folder self) n = Inr img"
    and "tile_size self < int (length img)" and "tile_size self < int (width img)"
    and "left_up_cord ext self (length img, width img) (laplacian_abs ext img) = Inr cord"
    and "map_of fs (out_folder self) = Some dout"
  shows "result_name n = ''.png'' \<and>
         process ext self n fs
           = save ext (crop img (cord ! 0, cord ! 1) (tile_size self)) (out_folder self)
               ''.png'' fs \<and>
         (\<forall>e. encode ext ''.png'' (crop img (cord ! 0, cord ! 1) (tile_size self)) = Inl e
            \<longrightarrow> process ext self n fs = Inl e \<and>
                update_and_process ext self n (fs, k) = Inl e)"
proof -
  have r: "result_name n = ''.png''"
    using assms(1) by (rule result_name_no_dot)
  have p: "process ext self n fs
             = save ext (crop img (cord ! 0, cord ! 1) (tile_size self)) (out_folder self)
                 ''.png'' fs"
    using process_tile[OF assms(2-5)] by (simp add: r)
  show ?thesis
    using r p assms(6) by (simp add: save_def update_and_process_def)
qed

theorem extensionless_names_share_output_witness:
  "CHR ''.'' \<notin> set ''w'' \<and>
   read libs disk (in_folder (tiler 2 1 ''sequential'' [''w'', ''z''])) ''w'' = Inr img_a \<and>
   tile_size (tiler 2 1 ''sequential'' [''w'', ''z'']) < int (length img_a) \<and>
   tile_size (tiler 2 1 ''sequential'' [''w'', ''z'']) < int (width img_a) \<and>
   left_up_cord libs (tiler 2 1 ''sequential'' [''w'', ''z'']) (length img_a, width img_a)
     (laplacian_abs libs img_a) = Inr [0, 0] \<and>
   map_of disk (out_folder (tiler 2 1 ''sequential'' [''w'', ''z''])) = Some [] \<and>
   encode libs ''.png''
     (crop img_a ([0, 0] ! 0, [0, 0] ! 1) (tile_size (tiler 2 1 ''sequential'' [''w'', ''z''])))
     = Inl SaveError \<and>
   result_name ''w'' = ''.png'' \<and>
   process libs (tiler 2 1 ''sequential'' [''w'', ''z'']) ''w'' disk
     = save libs (crop img_a ([0, 0] ! 0, [0, 0] ! 1)
                    (tile_size (tiler 2 1 ''sequential'' [''w'', ''z''])))
         (out_folder (tiler 2 1 ''sequential'' [''w'', ''z''])) ''.png'' disk \<and>
   process libs (tiler 2 1 ''sequential'' [''w'', ''z'']) ''w'' disk = Inl SaveError \<and>
   update_and_process libs (tiler 2 1 ''sequential'' [''w'', ''z'']) ''w'' (disk, 0)
     = Inl SaveError"
proof -
  let ?T = "tiler 2 1 ''sequential'' [''w'', ''z'']"
  have h1: "CHR ''.'' \<notin> set ''w''"
    by simp
  have h2: "read libs disk (in_folder ?T) ''w'' = Inr img_a"
    by (simp add: tiler_sel reads disk_folders)
  have h3: "tile_size ?T < int (length img_a)" and h4: "tile_size ?T < int (width img_a)"
    by (simp_all add: tiler_sel shapes)
  have h5: "left_up_cord libs ?T (length img_a, width img_a) (laplacian_abs libs img_a)
              = Inr [0, 0]"
    by (simp add: shapes cord_a)
  have h6: "map_of disk (out_folder ?T) = Some []"
    by (simp add: tiler_sel disk_folders)
  have e: "encode libs ''.png'' (crop img_a ([0, 0] ! 0, [0, 0] ! 1) (tile_size ?T))
             = Inl SaveError"
    by (simp add: libs_sel encode_no_format extensions)
  note t = extensionless_names_share_output[OF h1 h2 h3 h4 h5 h6, where k = 0]
  note c = t[THEN conjunct2, THEN conjunct2, rule_format, OF e]
  show ?thesis
    using h1 h2 h3 h4 h5 h6 e t[THEN conjunct1] t[THEN conjunct2, THEN conjunct1]
      c[THEN conjunct1] c[THEN conjunct2]
    by (intro conjI)
qed

text \<open>
  The claim as stated fails. The files \<open>w\<close> and \<open>z\<close> have no extension and are
  larger than the tile; \<open>process\<close> on \<open>w\<close> computes the name \<open>.png\<close>, \<^verbatim>\<open>save\<close> finds
  no format for it and raises, and the sequential run ends there with the output
  folder still empty: no file \<open>.png\<close> is written, and none is overwritten.
\<close>

theorem extensionless_tile_not_written:
  "CHR ''.'' \<notin> set ''w'' \<and> result_name ''w'' = ''.png'' \<and>
   read libs disk ''in'' ''w'' = Inr img_a \<and> length img_a = 3 \<and> width img_a = 3 \<and>
   process libs (tiler 2 1 ''sequential'' [''w'', ''z'']) ''w'' disk = Inl SaveError \<and>
   run libs (tiler 2 1 ''sequential'' [''w'', ''z'']) [] disk
     = (Some SaveError, [(''in'', folder_in), (''out'', [])], 0)"
  by (simp add: names_png reads disk_folders shapes run_def tiler_sel update_and_process_def
      disk_def process_batch)

end
